theory Spec2Isabelle
  imports Main "HOL-Library.Word" "HOL-Library.AList"
begin

unbundle bit_operations_syntax

section \<open>The memfile of \<open>src/nvim/memfile.c\<close>\<close>

subsection \<open>Data\<close>

text \<open>
  \<open>blocknr_T\<close> is \<open>int64_t\<close>. Signed overflow is undefined in C, so block numbers are
  unbounded integers here: the model describes the executions in which no block number
  leaves the 64-bit range. The \<open>unsigned\<close> fields (page size, page count, flags) are
  32-bit words and wrap as in C.
\<close>

type_synonym blocknr_T = int
type_synonym byte = "8 word"

text \<open>A pointer to a block header is an address of the header store; \<open>NULL\<close> is \<open>None\<close>.\<close>

type_synonym addr = nat

datatype mf_dirty_T = MF_DIRTY_NO | MF_DIRTY_YES | MF_DIRTY_YES_NOSYNC

datatype status = OK | FAIL

text \<open>
  Modelled from the spec: \<open>memfile_defs.h\<close> and \<open>memfile.h\<close> are not among the sources.
  The block flags \<open>BH_DIRTY\<close> and \<open>BH_LOCKED\<close> and the sync flags \<open>MFS_ALL\<close>,
  \<open>MFS_STOP\<close>, \<open>MFS_FLUSH\<close>, \<open>MFS_ZERO\<close> are distinct single-bit masks.
\<close>

definition BH_DIRTY :: "32 word" where "BH_DIRTY = 1"
definition BH_LOCKED :: "32 word" where "BH_LOCKED = 2"

definition MFS_ALL :: "32 word" where "MFS_ALL = 1"
definition MFS_STOP :: "32 word" where "MFS_STOP = 2"
definition MFS_FLUSH :: "32 word" where "MFS_FLUSH = 4"
definition MFS_ZERO :: "32 word" where "MFS_ZERO = 8"

text \<open>
  The block header \<open>bhdr_T\<close>. In the source \<open>bh_data\<close> points to the data buffer while
  the block is in use and to the next header while the header is in the free list; the
  model keeps the buffer's bytes in \<open>bh_data\<close> and the chain of the free list as a list
  of header addresses in the memfile.
\<close>

record bhdr_T =
  bh_bnum :: blocknr_T
  bh_data :: "byte list"
  bh_page_count :: "32 word"
  bh_flags :: "32 word"

text \<open>
  Modelled from the spec: \<open>map.h\<close> is not among the sources. The block index
  \<open>mf_hash\<close> and the translation table \<open>mf_trans\<close> are tables of key/value entries
  in table order, at most one entry per key: \<open>pmap_get\<close> looks a key up, \<open>pmap_put\<close>
  replaces the value of a present key in place and appends an absent one, \<open>pmap_del\<close>
  removes the key's entry and keeps the order of the others, and \<open>map_foreach_value\<close>
  assigns the value at position 0, 1, ... of the current table to its variable,
  reading the table's size again at each step.
\<close>

type_synonym ('k, 'v) table = "('k \<times> 'v) list"

definition pmap_get :: "('k, 'v) table \<Rightarrow> 'k \<Rightarrow> 'v option" where
  "pmap_get t k = map_of t k"

definition pmap_put :: "('k, 'v) table \<Rightarrow> 'k \<Rightarrow> 'v \<Rightarrow> ('k, 'v) table" where
  "pmap_put t k v = AList.update k v t"

definition pmap_del :: "('k, 'v) table \<Rightarrow> 'k \<Rightarrow> ('k, 'v) table" where
  "pmap_del t k = AList.delete k t"

record memfile_T =
  mf_fname :: "string option"
  mf_ffname :: "string option"
  mf_fd :: int
  mf_free_first :: "addr list"
  mf_hash :: "(blocknr_T, addr) table"
  mf_trans :: "(blocknr_T, blocknr_T) table"
  mf_blocknr_max :: blocknr_T
  mf_blocknr_min :: blocknr_T
  mf_neg_count :: blocknr_T
  mf_infile_count :: blocknr_T
  mf_page_size :: "32 word"
  mf_dirty :: mf_dirty_T

text \<open>The messages the functions give through \<open>emsg\<close>, \<open>iemsg\<close> and \<open>PERROR\<close>.\<close>

datatype message =
    E293_block_was_not_locked
  | E294_seek_error_read
  | E295_read_error
  | E296_seek_error_write
  | E297_write_error
  | E300_swap_file_exists
  | E_swapclose

text \<open>
  The whole state a memfile function works on: the memfile, the store of block headers
  (\<open>heap_top\<close> is the next address \<open>xmalloc\<close> hands out), the swap file as the list of
  its bytes (\<open>None\<close> is a byte of a hole, never written) with the position of its
  descriptor, the messages given so far, the globals \<open>did_swapwrite_msg\<close> and
  \<open>got_int\<close>, and the number of calls made to the operating system so far.
\<close>

record world =
  mfp :: memfile_T
  heap :: "addr \<Rightarrow> bhdr_T"
  heap_top :: addr
  swap :: "byte option list"
  fpos :: nat
  msgs :: "message list"
  did_swapwrite_msg :: bool
  got_int :: bool
  clock :: nat

text \<open>
  What the operating system answers, by the number of the call: whether a seek
  succeeds, how many bytes a write or a read transfers at most (\<open>None\<close>: the call
  returns -1), whether a character is available, whether CTRL-C arrived, whether
  \<open>os_fsync\<close> fails; and the bytes and headers \<open>xmalloc\<close> hands out uninitialised.
\<close>

record env =
  seek_ok :: "nat \<Rightarrow> bool"
  write_room :: "nat \<Rightarrow> nat option"
  read_avail :: "nat \<Rightarrow> nat option"
  char_avail :: "nat \<Rightarrow> bool"
  interrupt :: "nat \<Rightarrow> bool"
  fsync_fail :: "nat \<Rightarrow> bool"
  junk_byte :: "nat \<Rightarrow> byte"
  junk_hdr :: "addr \<Rightarrow> bhdr_T"

subsection \<open>Updating a header and the memfile\<close>

definition set_hdr :: "addr \<Rightarrow> (bhdr_T \<Rightarrow> bhdr_T) \<Rightarrow> world \<Rightarrow> world" where
  "set_hdr a f st = st\<lparr>heap := (heap st)(a := f (heap st a))\<rparr>"

definition set_mf :: "(memfile_T \<Rightarrow> memfile_T) \<Rightarrow> world \<Rightarrow> world" where
  "set_mf f st = st\<lparr>mfp := f (mfp st)\<rparr>"

definition emsg :: "message \<Rightarrow> world \<Rightarrow> world" where
  "emsg m st = st\<lparr>msgs := msgs st @ [m]\<rparr>"

subsection \<open>Allocation and the free list\<close>

text \<open>\<open>xmalloc\<close> of \<open>n\<close> bytes: the buffer holds whatever the allocator left there.\<close>

definition xmalloc :: "env \<Rightarrow> nat \<Rightarrow> byte list" where
  "xmalloc e n = map (junk_byte e) [0..<n]"

text \<open>\<open>mf_alloc_bhdr\<close> (lines 491-497). The product is taken in \<open>size_t\<close>, 64 bits wide.\<close>

definition mf_alloc_bhdr :: "env \<Rightarrow> world \<Rightarrow> 32 word \<Rightarrow> addr \<times> world" where
  "mf_alloc_bhdr e st page_count =
     (let hp = heap_top st;
          hdr = (junk_hdr e hp)
                  \<lparr>bh_data := xmalloc e (unat (mf_page_size (mfp st)) * unat page_count),
                   bh_page_count := page_count\<rparr>
      in (hp, st\<lparr>heap := (heap st)(hp := hdr), heap_top := Suc hp\<rparr>))"


definition mf_rem_free :: "world \<Rightarrow> world" where
  "mf_rem_free st = set_mf (\<lambda>m. m\<lparr>mf_free_first := tl (mf_free_first m)\<rparr>) st"

subsection \<open>Translation of negative block numbers\<close>

text \<open>
  The new number \<open>mf_trans_add\<close> takes (lines 642-659): the number of the first free
  block when it has enough pages, shortening or removing that block, else
  \<open>mf_blocknr_max\<close>.
\<close>

definition trans_new_bnum :: "world \<Rightarrow> 32 word \<Rightarrow> blocknr_T \<times> world" where
  "trans_new_bnum st page_count =
     (let from_max =
            (mf_blocknr_max (mfp st),
             set_mf (\<lambda>m. m\<lparr>mf_blocknr_max := mf_blocknr_max m + uint page_count\<rparr>) st)
      in case mf_free_first (mfp st) of
           [] \<Rightarrow> from_max
         | freep # rest \<Rightarrow>
             if bh_page_count (heap st freep) \<ge> page_count then
               (bh_bnum (heap st freep),
                if bh_page_count (heap st freep) > page_count then
                  set_hdr freep (\<lambda>h. h\<lparr>bh_bnum := bh_bnum h + uint page_count,
                                       bh_page_count := bh_page_count h - page_count\<rparr>) st
                else mf_rem_free st)
             else from_max)"

text \<open>\<open>mf_trans_add\<close> (lines 633-670).\<close>

definition mf_trans_add :: "world \<Rightarrow> addr \<Rightarrow> status \<times> world" where
  "mf_trans_add st hp =
     (if bh_bnum (heap st hp) \<ge> 0 then (OK, st)
      else
        let page_count = bh_page_count (heap st hp);
            (new_bnum, st1) = trans_new_bnum st page_count;
            old_bnum = bh_bnum (heap st1 hp);
            st2 = set_mf (\<lambda>m. m\<lparr>mf_hash := pmap_del (mf_hash m) (bh_bnum (heap st1 hp))\<rparr>) st1;
            st3 = set_hdr hp (\<lambda>h. h\<lparr>bh_bnum := new_bnum\<rparr>) st2;
            st4 = set_mf (\<lambda>m. m\<lparr>mf_hash := pmap_put (mf_hash m) new_bnum hp\<rparr>) st3;
            st5 = set_mf (\<lambda>m. m\<lparr>mf_trans := pmap_put (mf_trans m) old_bnum new_bnum\<rparr>) st4
        in (OK, st5))"

text \<open>\<open>mf_trans_del\<close> (lines 676-690).\<close>

definition mf_trans_del :: "world \<Rightarrow> blocknr_T \<Rightarrow> blocknr_T \<times> world" where
  "mf_trans_del st old_nr =
     (case pmap_get (mf_trans (mfp st)) old_nr of
        None \<Rightarrow> (old_nr, st)
      | Some new_bnum \<Rightarrow>
          (new_bnum,
           set_mf (\<lambda>m. m\<lparr>mf_neg_count := mf_neg_count m - 1,
                          mf_trans := pmap_del (mf_trans m) old_nr\<rparr>) st))"

subsection \<open>Releasing a block\<close>

text \<open>\<open>mf_put\<close> (lines 328-346). \<open>iemsg\<close> gives the message and returns.\<close>

definition mf_put :: "world \<Rightarrow> addr \<Rightarrow> bool \<Rightarrow> bool \<Rightarrow> world" where
  "mf_put st hp dirty infile =
     (let flags = bh_flags (heap st hp);
          st1 = (if flags AND BH_LOCKED = 0 then emsg E293_block_was_not_locked st else st);
          flags = flags AND NOT BH_LOCKED;
          (flags, st2) =
            (if dirty then
               (flags OR BH_DIRTY,
                if mf_dirty (mfp st1) \<noteq> MF_DIRTY_YES_NOSYNC
                then set_mf (\<lambda>m. m\<lparr>mf_dirty := MF_DIRTY_YES\<rparr>) st1 else st1)
             else (flags, st1));
          st3 = set_hdr hp (\<lambda>h. h\<lparr>bh_flags := flags\<rparr>) st2
      in if infile then snd (mf_trans_add st3 hp) else st3)"


subsection \<open>Creating a block\<close>

text \<open>\<open>memset(p, 0, n)\<close> on a buffer.\<close>

definition memset_zero :: "byte list \<Rightarrow> nat \<Rightarrow> byte list" where
  "memset_zero d n = replicate (min n (length d)) 0 @ drop n d"

text \<open>
  The header and number \<open>mf_new\<close> decides on (lines 241-266): the first free block when a
  positive number is wanted and it has enough pages, else a new number.
\<close>

definition new_number :: "env \<Rightarrow> world \<Rightarrow> bool \<Rightarrow> 32 word \<Rightarrow> addr \<times> world" where
  "new_number e st negative page_count =
     (let (hp, s1) = mf_alloc_bhdr e st page_count
      in if negative then
           (hp, set_mf (\<lambda>m. m\<lparr>mf_neg_count := mf_neg_count m + 1\<rparr>)
                  (set_mf (\<lambda>m. m\<lparr>mf_blocknr_min := mf_blocknr_min m - 1\<rparr>)
                     (set_hdr hp (\<lambda>h. h\<lparr>bh_bnum := mf_blocknr_min (mfp s1)\<rparr>) s1)))
         else
           (hp, set_mf (\<lambda>m. m\<lparr>mf_blocknr_max := mf_blocknr_max m + uint page_count\<rparr>)
                  (set_hdr hp (\<lambda>h. h\<lparr>bh_bnum := mf_blocknr_max (mfp s1)\<rparr>) s1)))"

definition new_header :: "env \<Rightarrow> world \<Rightarrow> bool \<Rightarrow> 32 word \<Rightarrow> addr \<times> world" where
  "new_header e st negative page_count =
     (case mf_free_first (mfp st) of
        [] \<Rightarrow> new_number e st negative page_count
      | freep # rest \<Rightarrow>
          if \<not> negative \<and> bh_page_count (heap st freep) \<ge> page_count then
            if bh_page_count (heap st freep) > page_count then
              let (hp, s1) = mf_alloc_bhdr e st page_count;
                  s2 = set_hdr hp (\<lambda>h. h\<lparr>bh_bnum := bh_bnum (heap s1 freep)\<rparr>) s1;
                  s3 = set_hdr freep (\<lambda>h. h\<lparr>bh_bnum := bh_bnum h + uint page_count\<rparr>) s2;
                  s4 = set_hdr freep
                         (\<lambda>h. h\<lparr>bh_page_count := bh_page_count h - page_count\<rparr>) s3
              in (hp, s4)
            else
              let p = xmalloc e (unat (mf_page_size (mfp st)) * unat page_count);
                  s1 = mf_rem_free st;
                  s2 = set_hdr freep (\<lambda>h. h\<lparr>bh_data := p\<rparr>) s1
              in (freep, s2)
          else new_number e st negative page_count)"

text \<open>\<open>mf_new\<close> (lines 233-277).\<close>

definition mf_new :: "env \<Rightarrow> world \<Rightarrow> bool \<Rightarrow> 32 word \<Rightarrow> addr \<times> world" where
  "mf_new e st negative page_count =
     (let (hp, st1) = new_header e st negative page_count;
          st2 = set_hdr hp (\<lambda>h. h\<lparr>bh_flags := BH_LOCKED OR BH_DIRTY\<rparr>) st1;
          st3 = set_mf (\<lambda>m. m\<lparr>mf_dirty := MF_DIRTY_YES\<rparr>) st2;
          st4 = set_hdr hp (\<lambda>h. h\<lparr>bh_page_count := page_count\<rparr>) st3;
          st5 = set_mf (\<lambda>m. m\<lparr>mf_hash := pmap_put (mf_hash m) (bh_bnum (heap st4 hp)) hp\<rparr>) st4;
          st6 = set_hdr hp
                  (\<lambda>h. h\<lparr>bh_data := memset_zero (bh_data h)
                                       (unat (mf_page_size (mfp st5)) * unat page_count)\<rparr>) st5
      in (hp, st6))"

subsection \<open>The swap file\<close>

text \<open>
  \<open>vim_lseek(fd, offset, SEEK_SET)\<close>: the offset when the seek succeeds, else -1 and
  the position stays.
\<close>

definition vim_lseek :: "env \<Rightarrow> world \<Rightarrow> int \<Rightarrow> int \<times> world" where
  "vim_lseek e st offset =
     (let st1 = st\<lparr>clock := Suc (clock st)\<rparr>
      in if 0 \<le> offset \<and> seek_ok e (clock st)
         then (offset, st1\<lparr>fpos := nat offset\<rparr>) else (- 1, st1))"

text \<open>Bytes \<open>d\<close> stored at offset \<open>off\<close>; a write beyond the end leaves a hole.\<close>

definition write_at :: "byte option list \<Rightarrow> nat \<Rightarrow> byte list \<Rightarrow> byte option list" where
  "write_at f off d =
     (if d = [] then f
      else take off (f @ replicate (off - length f) None) @ map Some d
             @ drop (off + length d) f)"

text \<open>
  \<open>write_eintr\<close>: the bytes the system takes are stored at the descriptor's position and
  counted; -1 when the call fails.
\<close>

definition write_eintr :: "env \<Rightarrow> world \<Rightarrow> byte list \<Rightarrow> nat \<Rightarrow> int \<times> world" where
  "write_eintr e st d nbytes =
     (let st1 = st\<lparr>clock := Suc (clock st)\<rparr>
      in case write_room e (clock st) of
           None \<Rightarrow> (- 1, st1)
         | Some k \<Rightarrow>
             let n = min k nbytes
             in (int n, st1\<lparr>swap := write_at (swap st) (fpos st) (take n d),
                            fpos := fpos st + n\<rparr>))"

text \<open>
  \<open>read_eintr\<close>: the bytes read from the descriptor's position, at most to the end of
  the file; a hole reads as zero; -1 when the call fails.
\<close>

definition read_eintr :: "env \<Rightarrow> world \<Rightarrow> nat \<Rightarrow> int \<times> byte list \<times> world" where
  "read_eintr e st nbytes =
     (let st1 = st\<lparr>clock := Suc (clock st)\<rparr>
      in case read_avail e (clock st) of
           None \<Rightarrow> (- 1, [], st1)
         | Some k \<Rightarrow>
             let n = min (min k nbytes) (length (swap st) - fpos st);
                 bs = map (\<lambda>b. case b of None \<Rightarrow> 0 | Some x \<Rightarrow> x)
                        (take n (drop (fpos st) (swap st)))
             in (int n, bs, st1\<lparr>fpos := fpos st + n\<rparr>))"

text \<open>\<open>mf_read\<close> (lines 529-551).\<close>

definition mf_read :: "env \<Rightarrow> world \<Rightarrow> addr \<Rightarrow> status \<times> world" where
  "mf_read e st hp =
     (if mf_fd (mfp st) < 0 then (FAIL, st)
      else
        let page_size = mf_page_size (mfp st);
            offset = uint page_size * bh_bnum (heap st hp);
            (r, st1) = vim_lseek e st offset
        in if r \<noteq> offset then (FAIL, emsg E294_seek_error_read st1)
           else
             let nbytes = page_size * bh_page_count (heap st1 hp);
                 (n, bs, st2) = read_eintr e st1 (unat nbytes);
                 st3 = set_hdr hp (\<lambda>h. h\<lparr>bh_data := bs @ drop (length bs) (bh_data h)\<rparr>) st2
             in if (word_of_int n :: 32 word) \<noteq> nbytes
                then (FAIL, emsg E295_read_error st3)
                else (OK, st3))"

text \<open>
  One round of the loop of \<open>mf_write\<close>, once the page \<open>nr\<close> to write and the block
  \<open>hp2\<close> that lives there are decided (lines 591-624): \<open>Some\<close> status when the function
  returns or leaves the loop, \<open>None\<close> when the loop goes round again.
\<close>

definition mf_write_pages ::
  "env \<Rightarrow> addr \<Rightarrow> blocknr_T \<Rightarrow> addr option \<Rightarrow> world \<Rightarrow> status option \<times> world" where
  "mf_write_pages e hp nr hp2 st =
     (let page_size = mf_page_size (mfp st);
          offset = uint page_size * nr;
          (r, st1) = vim_lseek e st offset
      in if r \<noteq> offset then (Some FAIL, emsg E296_seek_error_write st1)
         else
           let page_count = (case hp2 of None \<Rightarrow> 1 | Some h \<Rightarrow> bh_page_count (heap st1 h));
               nbytes = page_size * page_count;
               d = (case hp2 of None \<Rightarrow> bh_data (heap st1 hp)
                    | Some h \<Rightarrow> bh_data (heap st1 h));
               (n, st2) = write_eintr e st1 d (unat nbytes)
           in if (word_of_int n :: 32 word) \<noteq> nbytes then
                (Some FAIL,
                 (if \<not> did_swapwrite_msg st2 then emsg E297_write_error st2 else st2)
                   \<lparr>did_swapwrite_msg := True\<rparr>)
              else
                let st3 = st2\<lparr>did_swapwrite_msg := False\<rparr>;
                    st4 = (case hp2 of None \<Rightarrow> st3
                           | Some h \<Rightarrow>
                               set_hdr h (\<lambda>b. b\<lparr>bh_flags := bh_flags b AND NOT BH_DIRTY\<rparr>) st3);
                    st5 = (if nr + uint page_count > mf_infile_count (mfp st4)
                           then set_mf (\<lambda>m. m\<lparr>mf_infile_count := nr + uint page_count\<rparr>) st4
                           else st4)
                in if nr = bh_bnum (heap st5 hp) then (Some OK, st5) else (None, st5))"

text \<open>
  The round with its choice of page and block (lines 583-589): beyond the end of the
  file, the page \<open>mf_infile_count\<close> and the block the index has there, if any.
\<close>

definition mf_write_round :: "env \<Rightarrow> addr \<Rightarrow> world \<Rightarrow> status option \<times> world" where
  "mf_write_round e hp st =
     (if bh_bnum (heap st hp) > mf_infile_count (mfp st)
      then mf_write_pages e hp (mf_infile_count (mfp st))
             (pmap_get (mf_hash (mfp st)) (mf_infile_count (mfp st))) st
      else mf_write_pages e hp (bh_bnum (heap st hp)) (Some hp) st)"

text \<open>The loop itself; it need not end, and then the function returns nothing.\<close>

partial_function (option) mf_write_loop :: "env \<Rightarrow> addr \<Rightarrow> world \<Rightarrow> (status \<times> world) option"
  where
  "mf_write_loop e hp st =
     (case mf_write_round e hp st of
        (Some r, st1) \<Rightarrow> Some (r, st1)
      | (None, st1) \<Rightarrow> mf_write_loop e hp st1)"

declare mf_write_loop.simps [code]

text \<open>\<open>mf_write\<close> (lines 561-627).\<close>

definition mf_write :: "env \<Rightarrow> world \<Rightarrow> addr \<Rightarrow> (status \<times> world) option" where
  "mf_write e st hp =
     (if mf_fd (mfp st) < 0 then Some (FAIL, st)
      else
        let (r, st1) = (if bh_bnum (heap st hp) < 0 then mf_trans_add st hp else (OK, st))
        in if r = FAIL then Some (FAIL, st1) else mf_write_loop e hp st1)"

subsection \<open>Getting a block\<close>

text \<open>\<open>mf_get\<close> (lines 284-322). \<open>mf_free_bhdr\<close> gives the header back to the allocator.\<close>

definition mf_get :: "env \<Rightarrow> world \<Rightarrow> blocknr_T \<Rightarrow> 32 word \<Rightarrow> addr option \<times> world" where
  "mf_get e st nr page_count =
     (if nr \<ge> mf_blocknr_max (mfp st) \<or> nr \<le> mf_blocknr_min (mfp st) then (None, st)
      else
        let (hp, st1) =
              (case pmap_get (mf_hash (mfp st)) nr of
                 None \<Rightarrow>
                   if nr < 0 \<or> nr \<ge> mf_infile_count (mfp st) then (None, st)
                   else if page_count > 0 then
                     let (h, s1) = mf_alloc_bhdr e st page_count;
                         s2 = set_hdr h (\<lambda>b. b\<lparr>bh_bnum := nr, bh_flags := 0,
                                               bh_page_count := page_count\<rparr>) s1;
                         (r, s3) = mf_read e s2 h
                     in if r = FAIL then (None, s3) else (Some h, s3)
                   else (None, st)
               | Some h \<Rightarrow>
                   (Some h,
                    set_mf (\<lambda>m. m\<lparr>mf_hash := pmap_del (mf_hash m) (bh_bnum (heap st h))\<rparr>) st))
        in case hp of
             None \<Rightarrow> (None, st1)
           | Some h \<Rightarrow>
               let st2 = set_hdr h (\<lambda>b. b\<lparr>bh_flags := bh_flags b OR BH_LOCKED\<rparr>) st1;
                   st3 = set_mf (\<lambda>m. m\<lparr>mf_hash :=
                                         pmap_put (mf_hash m) (bh_bnum (heap st2 h)) h\<rparr>) st2
               in (Some h, st3))"

subsection \<open>Syncing\<close>

text \<open>
  \<open>os_char_avail\<close>, \<open>os_breakcheck\<close> and \<open>os_fsync\<close>: what the system answers; the first
  two may notice CTRL-C and set \<open>got_int\<close>.
\<close>

definition os_char_avail :: "env \<Rightarrow> world \<Rightarrow> bool \<times> world" where
  "os_char_avail e st =
     (char_avail e (clock st),
      st\<lparr>got_int := got_int st \<or> interrupt e (clock st), clock := Suc (clock st)\<rparr>)"

definition os_breakcheck :: "env \<Rightarrow> world \<Rightarrow> world" where
  "os_breakcheck e st =
     st\<lparr>got_int := got_int st \<or> interrupt e (clock st), clock := Suc (clock st)\<rparr>"

definition os_fsync :: "env \<Rightarrow> world \<Rightarrow> bool \<times> world" where
  "os_fsync e st = (fsync_fail e (clock st), st\<lparr>clock := Suc (clock st)\<rparr>)"

text \<open>
  The body of the walk of \<open>mf_sync\<close> for one block (lines 396-419): whether the walk
  breaks off, the status and the state after it.
\<close>

definition mf_sync_visit ::
  "env \<Rightarrow> 32 word \<Rightarrow> addr \<Rightarrow> status \<Rightarrow> world \<Rightarrow> (bool \<times> status \<times> world) option" where
  "mf_sync_visit e flags hp status st =
     (if (flags AND MFS_ALL \<noteq> 0 \<or> bh_bnum (heap st hp) \<ge> 0)
         \<and> bh_flags (heap st hp) AND BH_DIRTY \<noteq> 0
         \<and> (status = OK \<or> (bh_bnum (heap st hp) \<ge> 0
                            \<and> bh_bnum (heap st hp) < mf_infile_count (mfp st)))
      then
        if flags AND MFS_ZERO \<noteq> 0 \<and> bh_bnum (heap st hp) \<noteq> 0 then Some (False, status, st)
        else
          case mf_write e st hp of
            None \<Rightarrow> None
          | Some (r, st1) \<Rightarrow>
              if r = FAIL \<and> status = FAIL then Some (True, status, st1)
              else
                let status1 = (if r = FAIL then FAIL else status);
                    (stop, st2) = (if flags AND MFS_STOP \<noteq> 0 then os_char_avail e st1
                                   else (False, os_breakcheck e st1))
                in if stop then Some (True, status1, st2)
                   else if got_int st2 then Some (True, status1, st2)
                   else Some (False, status1, st2)
      else Some (False, status, st))"

text \<open>
  The walk over the block index from position \<open>i\<close>; \<open>hp\<close> is the loop variable, which
  keeps the last value assigned to it.
\<close>

partial_function (option) mf_sync_walk ::
  "env \<Rightarrow> 32 word \<Rightarrow> nat \<Rightarrow> addr option \<Rightarrow> status \<Rightarrow> world
     \<Rightarrow> (addr option \<times> status \<times> world) option" where
  "mf_sync_walk e flags i hp status st =
     (if i < length (mf_hash (mfp st)) then
        case mf_sync_visit e flags (snd (mf_hash (mfp st) ! i)) status st of
          None \<Rightarrow> None
        | Some (brk, status1, st1) \<Rightarrow>
            if brk then Some (Some (snd (mf_hash (mfp st) ! i)), status1, st1)
            else mf_sync_walk e flags (Suc i) (Some (snd (mf_hash (mfp st) ! i))) status1 st1
      else Some (hp, status, st))"

declare mf_sync_walk.simps [code]

text \<open>
  \<open>mf_sync\<close> (lines 375-437). The local \<open>hp\<close> is declared without a value: \<open>hp0\<close> is
  what it holds before the walk.
\<close>

definition mf_sync :: "env \<Rightarrow> addr option \<Rightarrow> world \<Rightarrow> 32 word \<Rightarrow> (status \<times> world) option" where
  "mf_sync e hp0 st flags =
     (let got_int_save = got_int st
      in if mf_fd (mfp st) < 0
         then Some (FAIL, set_mf (\<lambda>m. m\<lparr>mf_dirty := MF_DIRTY_NO\<rparr>) st)
         else
           case mf_sync_walk e flags 0 hp0 OK (st\<lparr>got_int := False\<rparr>) of
             None \<Rightarrow> None
           | Some (hp, status, st1) \<Rightarrow>
               let st2 = (if hp = None \<or> status = FAIL
                          then set_mf (\<lambda>m. m\<lparr>mf_dirty := MF_DIRTY_NO\<rparr>) st1 else st1);
                   (status1, st3) =
                     (if flags AND MFS_FLUSH \<noteq> 0 then
                        let (failed, s) = os_fsync e st2
                        in (if failed then FAIL else status, s)
                      else (status, st2))
               in Some (status1, st3\<lparr>got_int := got_int st3 \<or> got_int_save\<rparr>))"


subsection \<open>Opening\<close>

text \<open>
  The memfile \<open>mf_open\<close> returns (lines 101-137), given the names and the descriptor
  (-1: memory only), the page size it settled on and the number of pages it computed
  from the size of the file.
\<close>

definition mf_open_result ::
  "string option \<Rightarrow> string option \<Rightarrow> int \<Rightarrow> 32 word \<Rightarrow> blocknr_T \<Rightarrow> memfile_T" where
  "mf_open_result fname ffname fd page_size pages =
     \<lparr>mf_fname = fname, mf_ffname = ffname, mf_fd = fd, mf_free_first = [],
      mf_hash = [], mf_trans = [], mf_blocknr_max = pages, mf_blocknr_min = - 1,
      mf_neg_count = 0, mf_infile_count = pages, mf_page_size = page_size,
      mf_dirty = MF_DIRTY_NO\<rparr>"





subsection \<open>Releasing memory\<close>




subsection \<open>Inputs for the examples\<close>

text \<open>
  A system on which every call succeeds; a memfile just opened on a new swap file with
  pages of two bytes; and one opened for recovery on a swap file of three pages.
\<close>

definition env_ok :: env where
  "env_ok = \<lparr>seek_ok = (\<lambda>_. True), write_room = (\<lambda>_. Some 64),
           read_avail = (\<lambda>_. Some 64), char_avail = (\<lambda>_. False),
           interrupt = (\<lambda>_. False), fsync_fail = (\<lambda>_. False),
           junk_byte = (\<lambda>_. 255),
           junk_hdr = (\<lambda>_. \<lparr>bh_bnum = 77, bh_data = [], bh_page_count = 9, bh_flags = 255\<rparr>)\<rparr>"

definition world_new :: world where
  "world_new = \<lparr>mfp = mf_open_result (Some ''swp'') (Some ''/swp'') 3 2 0,
         heap = junk_hdr env_ok, heap_top = 0, swap = [], fpos = 0, msgs = [],
         did_swapwrite_msg = False, got_int = False, clock = 0\<rparr>"

definition world_rec :: world where
  "world_rec = \<lparr>mfp = mf_open_result (Some ''swp'') (Some ''/swp'') 3 2 3,
         heap = junk_hdr env_ok, heap_top = 0, swap = map Some [1,2,3,4,5,6], fpos = 0, msgs = [],
         did_swapwrite_msg = False, got_int = False, clock = 0\<rparr>"


text \<open>The first free block does not have \<open>page_count\<close> pages, or there is none.\<close>

definition cannot_supply :: "world \<Rightarrow> 32 word \<Rightarrow> bool" where
  "cannot_supply st page_count =
     (case mf_free_first (mfp st) of [] \<Rightarrow> True
      | freep # rest \<Rightarrow> bh_page_count (heap st freep) < page_count)"

text \<open>
  Block 1 read from the recovered file and locked; the same block released unchanged;
  the locked block in a memfile the caller has marked \<open>MF_DIRTY_YES_NOSYNC\<close>; and a
  new negative block released unchanged.
\<close>

definition world_locked :: world where
  "world_locked = snd (mf_get env_ok world_rec 1 1)"


definition world_nosync :: world where
  "world_nosync = set_mf (\<lambda>m. m\<lparr>mf_dirty := MF_DIRTY_YES_NOSYNC\<rparr>) world_locked"

definition world_neg :: world where
  "world_neg = mf_put (snd (mf_new env_ok world_new True 1)) 0 False False"



text \<open>
  A system whose disk is full; a memfile with one dirty block 0; and one with dirty
  blocks 0 and 1.
\<close>

definition env_full :: env where
  "env_full = env_ok\<lparr>write_room := (\<lambda>_. Some 0)\<rparr>"

definition world_dirty :: world where
  "world_dirty = mf_put (snd (mf_new env_ok world_new False 1)) 0 True False"










section \<open>Properties\<close>

subsection \<open>Flags, tables and the example states\<close>

lemmas upd_defs = set_hdr_def set_mf_def emsg_def



lemma dirty_and_locked: "BH_DIRTY AND BH_LOCKED = 0"
  by (simp add: BH_DIRTY_def BH_LOCKED_def)

lemma flags_dirty_set: "(f OR BH_DIRTY) AND BH_DIRTY \<noteq> 0"
  by (simp add: bit.conj_disj_distrib2 BH_DIRTY_def)

lemma flags_dirty_unlock: "((f AND NOT BH_LOCKED) OR BH_DIRTY) AND BH_LOCKED = 0"
  by (simp add: bit.conj_disj_distrib2 and.assoc dirty_and_locked)

lemma mf_trans_add_flags: "bh_flags (heap (snd (mf_trans_add st hp)) a) = bh_flags (heap st a)"
  by (simp add: mf_trans_add_def trans_new_bnum_def mf_rem_free_def upd_defs Let_def split_def split: list.splits)

lemma mf_trans_add_dirty: "mf_dirty (mfp (snd (mf_trans_add st hp))) = mf_dirty (mfp st)"
  by (simp add: mf_trans_add_def trans_new_bnum_def mf_rem_free_def upd_defs Let_def split_def split: list.splits)

lemma mf_trans_add_msgs: "msgs (snd (mf_trans_add st hp)) = msgs st"
  by (simp add: mf_trans_add_def trans_new_bnum_def mf_rem_free_def upd_defs Let_def split_def split: list.splits)


lemma BH_DIRTY_nonzero: "BH_DIRTY \<noteq> 0"
  by (simp add: BH_DIRTY_def)

lemma mf_put_flags:
  "bh_flags (heap (mf_put st hp dirty infile) hp)
     = (if dirty then (bh_flags (heap st hp) AND NOT BH_LOCKED) OR BH_DIRTY
        else bh_flags (heap st hp) AND NOT BH_LOCKED)"
  by (simp add: mf_put_def Let_def mf_trans_add_flags upd_defs)

lemma mf_put_dirty:
  "mf_dirty (mfp (mf_put st hp dirty infile))
     = (if dirty \<and> mf_dirty (mfp st) \<noteq> MF_DIRTY_YES_NOSYNC then MF_DIRTY_YES
        else mf_dirty (mfp st))"
  by (simp add: mf_put_def Let_def mf_trans_add_dirty upd_defs)

lemma mf_put_msgs:
  "msgs (mf_put st hp dirty infile)
     = (if bh_flags (heap st hp) AND BH_LOCKED = 0
        then msgs st @ [E293_block_was_not_locked] else msgs st)"
  by (simp add: mf_put_def Let_def mf_trans_add_msgs upd_defs)



lemma pmap_get_put: "pmap_get (pmap_put t k v) k' = (if k' = k then Some v else pmap_get t k')"
  by (simp add: pmap_get_def pmap_put_def update_conv')

lemma pmap_get_del: "pmap_get (pmap_del t k) k' = (if k' = k then None else pmap_get t k')"
  by (simp add: pmap_get_def pmap_del_def delete_conv')

lemma length_xmalloc: "length (xmalloc e n) = n"
  by (simp add: xmalloc_def)

lemma memset_zero_all: "length d = n \<Longrightarrow> memset_zero d n = replicate n 0"
  by (simp add: memset_zero_def)

lemma new_number_data:
  "new_number e st negative page_count = (hp, st1) \<Longrightarrow>
     length (bh_data (heap st1 hp)) = unat (mf_page_size (mfp st)) * unat page_count
     \<and> mf_page_size (mfp st1) = mf_page_size (mfp st)"
  by (auto simp add: new_number_def mf_alloc_bhdr_def upd_defs Let_def length_xmalloc split: if_splits)

lemma new_header_data:
  assumes "new_header e st negative page_count = (hp, st1)"
  shows "length (bh_data (heap st1 hp)) = unat (mf_page_size (mfp st)) * unat page_count
     \<and> mf_page_size (mfp st1) = mf_page_size (mfp st)"
proof (cases "negative \<or> mf_free_first (mfp st) = []
              \<or> bh_page_count (heap st (hd (mf_free_first (mfp st)))) < page_count")
  case True
  then have "new_header e st negative page_count = new_number e st negative page_count"
    by (auto simp add: new_header_def split: list.splits)
  with assms show ?thesis by (simp add: new_number_data)
next
  case False
  then obtain freep rest where f: "mf_free_first (mfp st) = freep # rest"
    by (cases "mf_free_first (mfp st)") auto
  with False have c: "\<not> negative" "page_count \<le> bh_page_count (heap st freep)" by auto
  show ?thesis
  proof (cases "bh_page_count (heap st freep) > page_count")
    case True
    with assms f c show ?thesis
      by (auto simp add: new_header_def mf_alloc_bhdr_def upd_defs Let_def length_xmalloc)
  next
    case False
    with assms f c show ?thesis
      by (auto simp add: new_header_def mf_rem_free_def upd_defs Let_def length_xmalloc)
  qed
qed

lemma new_header_fresh:
  "negative \<or> cannot_supply st page_count \<Longrightarrow>
   new_header e st negative page_count = new_number e st negative page_count"
  by (auto simp add: new_header_def cannot_supply_def split: list.splits)

lemma world_locked_eval:
  "mfp world_locked = (mf_open_result (Some ''swp'') (Some ''/swp'') 3 2 3)\<lparr>mf_hash := [(1, 0)]\<rparr>"
  "heap world_locked 0 = \<lparr>bh_bnum = 1, bh_data = [3, 4], bh_page_count = 1, bh_flags = 2\<rparr>"
  "msgs world_locked = []"
  by (simp_all add: world_locked_def mf_get_def mf_read_def vim_lseek_def read_eintr_def
        mf_alloc_bhdr_def xmalloc_def pmap_get_def pmap_put_def pmap_del_def upd_defs Let_def
        world_rec_def env_ok_def mf_open_result_def BH_LOCKED_def)


lemma world_neg_eval:
  "mf_trans (mfp world_neg) = []"
  "bh_flags (heap world_neg 0) = 1"
  "mf_trans (mfp (mf_put world_neg 0 False True)) = [(- 1, 0)]"
  by (simp_all add: world_neg_def mf_put_def mf_new_def new_header_def new_number_def
        mf_trans_add_def trans_new_bnum_def
        mf_alloc_bhdr_def xmalloc_def pmap_get_def pmap_put_def pmap_del_def upd_defs Let_def
        world_new_def env_ok_def mf_open_result_def BH_LOCKED_def BH_DIRTY_def memset_zero_def)

subsection \<open>Releasing, creating and getting a block; translation\<close>




text \<open>
  Claim C3, as the code has it. For a locked block \<open>mf_put\<close> with \<open>dirty\<close> true clears
  \<open>LOCKED\<close> and sets the block's \<open>DIRTY\<close> flag whatever the memfile's dirty state is; the
  memfile becomes \<open>MF_DIRTY_YES\<close> unless it is \<open>MF_DIRTY_YES_NOSYNC\<close>, which stays; no
  message is given.
\<close>

theorem mf_put_locked:
  assumes "bh_flags (heap st hp) AND BH_LOCKED \<noteq> 0"
  shows "bh_flags (heap (mf_put st hp True infile) hp) AND BH_LOCKED = 0
       \<and> bh_flags (heap (mf_put st hp True infile) hp) AND BH_DIRTY \<noteq> 0
       \<and> mf_dirty (mfp (mf_put st hp True infile))
           = (if mf_dirty (mfp st) = MF_DIRTY_YES_NOSYNC then MF_DIRTY_YES_NOSYNC else MF_DIRTY_YES)
       \<and> msgs (mf_put st hp True infile) = msgs st"
proof (intro conjI)
  show "bh_flags (heap (mf_put st hp True infile) hp) AND BH_LOCKED = 0"
    by (simp only: mf_put_flags if_True flags_dirty_unlock)
  show "bh_flags (heap (mf_put st hp True infile) hp) AND BH_DIRTY \<noteq> 0"
    by (simp only: mf_put_flags if_True flags_dirty_set not_False_eq_True)
  show "mf_dirty (mfp (mf_put st hp True infile))
           = (if mf_dirty (mfp st) = MF_DIRTY_YES_NOSYNC then MF_DIRTY_YES_NOSYNC else MF_DIRTY_YES)"
    by (simp add: mf_put_dirty)
  show "msgs (mf_put st hp True infile) = msgs st"
    using assms by (simp add: mf_put_msgs)
qed

theorem mf_put_locked_witness:
  "bh_flags (heap world_nosync 0) AND BH_LOCKED \<noteq> 0
   \<and> bh_flags (heap (mf_put world_nosync 0 True False) 0) AND BH_LOCKED = 0
   \<and> bh_flags (heap (mf_put world_nosync 0 True False) 0) AND BH_DIRTY \<noteq> 0
   \<and> mf_dirty (mfp (mf_put world_nosync 0 True False)) = MF_DIRTY_YES_NOSYNC
   \<and> msgs (mf_put world_nosync 0 True False) = msgs world_nosync"
proof -
  have h: "bh_flags (heap world_nosync 0) AND BH_LOCKED \<noteq> 0"
    by (simp add: world_nosync_def world_locked_eval upd_defs BH_LOCKED_def)
  have d: "mf_dirty (mfp world_nosync) = MF_DIRTY_YES_NOSYNC"
    by (simp add: world_nosync_def upd_defs)
  from mf_put_locked [OF h, where infile = False] h d show ?thesis by simp
qed

theorem mf_put_locked_counterexample:
  "bh_flags (heap world_nosync 0) AND BH_LOCKED \<noteq> 0
   \<and> mf_dirty (mfp world_nosync) = MF_DIRTY_YES_NOSYNC
   \<and> bh_flags (heap world_nosync 0) AND BH_DIRTY = 0
   \<and> bh_flags (heap (mf_put world_nosync 0 True False) 0) AND BH_DIRTY \<noteq> 0"
  by (simp add: mf_put_flags world_nosync_def world_locked_eval upd_defs BH_LOCKED_def BH_DIRTY_def)

text \<open>
  Claim C4. The block \<open>mf_new\<close> returns has the flags \<open>LOCKED | DIRTY\<close> and nothing else,
  its data are \<open>page_size * page_count\<close> zero bytes, the block index holds it under its
  number, and the memfile is \<open>MF_DIRTY_YES\<close>. This holds for every page count.
\<close>

theorem mf_new_block:
  "case mf_new e st negative page_count of
     (hp, st') \<Rightarrow>
       bh_flags (heap st' hp) = BH_LOCKED OR BH_DIRTY
       \<and> bh_data (heap st' hp) = replicate (unat (mf_page_size (mfp st)) * unat page_count) 0
       \<and> bh_page_count (heap st' hp) = page_count
       \<and> pmap_get (mf_hash (mfp st')) (bh_bnum (heap st' hp)) = Some hp
       \<and> mf_dirty (mfp st') = MF_DIRTY_YES"
proof -
  obtain hp st1 where h: "new_header e st negative page_count = (hp, st1)"
    by (cases "new_header e st negative page_count")
  note d = new_header_data [OF h]
  show ?thesis
    by (simp add: mf_new_def h Let_def upd_defs pmap_get_put memset_zero_all d)
qed

theorem mf_new_block_witness:
  "case mf_new env_ok world_new False 1 of
     (hp, st') \<Rightarrow>
       bh_flags (heap st' hp) = BH_LOCKED OR BH_DIRTY
       \<and> bh_data (heap st' hp) = replicate 2 0
       \<and> pmap_get (mf_hash (mfp st')) (bh_bnum (heap st' hp)) = Some hp
       \<and> mf_dirty (mfp st') = MF_DIRTY_YES"
proof -
  have n: "unat (mf_page_size (mfp world_new)) * unat (1 :: 32 word) = 2"
    by (simp add: world_new_def mf_open_result_def)
  from mf_new_block [where e = env_ok and st = world_new and negative = False
                       and page_count = 1]
  show ?thesis unfolding n by (simp add: split_def)
qed

text \<open>
  Claim C5, as the code has it. When the free list cannot supply the request, \<open>mf_new\<close>
  for a positive number gives the block the old \<open>mf_blocknr_max\<close> and adds
  \<open>page_count\<close> to \<open>mf_blocknr_max\<close>; for a negative number it gives the block the old
  \<open>mf_blocknr_min\<close>, takes one from \<open>mf_blocknr_min\<close> and adds one to \<open>mf_neg_count\<close>.
\<close>

theorem mf_new_number:
  assumes "cannot_supply st page_count"
  shows "(case mf_new e st False page_count of
            (hp, st') \<Rightarrow>
              bh_bnum (heap st' hp) = mf_blocknr_max (mfp st)
              \<and> mf_blocknr_max (mfp st') = mf_blocknr_max (mfp st) + uint page_count)
       \<and> (case mf_new e st True page_count of
            (hp, st') \<Rightarrow>
              bh_bnum (heap st' hp) = mf_blocknr_min (mfp st)
              \<and> mf_blocknr_min (mfp st') = mf_blocknr_min (mfp st) - 1
              \<and> mf_neg_count (mfp st') = mf_neg_count (mfp st) + 1)"
  using assms
  by (simp add: mf_new_def new_header_fresh new_number_def mf_alloc_bhdr_def Let_def upd_defs)

theorem mf_new_number_witness:
  "cannot_supply world_new 2
   \<and> mf_blocknr_max (mfp (snd (mf_new env_ok world_new False 2))) = 2
   \<and> bh_bnum (heap (snd (mf_new env_ok world_new True 2)) (fst (mf_new env_ok world_new True 2))) = - 1
   \<and> mf_blocknr_min (mfp (snd (mf_new env_ok world_new True 2))) = - 2
   \<and> mf_neg_count (mfp (snd (mf_new env_ok world_new True 2))) = 1"
proof -
  have h: "cannot_supply world_new 2"
    by (simp add: cannot_supply_def world_new_def mf_open_result_def)
  from mf_new_number [OF h, where e = env_ok] h show ?thesis
    by (simp add: split_def world_new_def mf_open_result_def)
qed

theorem mf_new_number_counterexample:
  "cannot_supply world_new 2
   \<and> mf_blocknr_max (mfp (snd (mf_new env_ok world_new False 2)))
       \<noteq> mf_blocknr_max (mfp world_new) + 1"
  by (simp add: cannot_supply_def mf_new_def new_header_def new_number_def mf_alloc_bhdr_def
        upd_defs Let_def world_new_def mf_open_result_def)

text \<open>
  Claim C6. \<open>mf_get\<close> returns \<open>NULL\<close> and leaves the whole state as it is when \<open>nr\<close> is
  at or above \<open>mf_blocknr_max\<close> or at or below \<open>mf_blocknr_min\<close>, and when \<open>nr\<close> is
  absent from the block index and negative or at or above \<open>mf_infile_count\<close>.
\<close>

theorem mf_get_none:
  "(nr \<ge> mf_blocknr_max (mfp st) \<or> nr \<le> mf_blocknr_min (mfp st)
      \<longrightarrow> mf_get e st nr page_count = (None, st))
   \<and> (pmap_get (mf_hash (mfp st)) nr = None \<and> (nr < 0 \<or> nr \<ge> mf_infile_count (mfp st))
      \<longrightarrow> mf_get e st nr page_count = (None, st))"
  by (simp add: mf_get_def)

theorem mf_get_none_witness:
  "mf_get env_ok world_rec 3 1 = (None, world_rec)
   \<and> mf_get env_ok world_new (- 1) 1 = (None, world_new)"
  using mf_get_none [where st = world_rec and nr = 3 and e = env_ok and page_count = 1]
        mf_get_none [where st = world_new and nr = "- 1" and e = env_ok and page_count = 1]
  by (simp add: world_rec_def world_new_def mf_open_result_def)

text \<open>
  Claim C7. When \<open>old_nr\<close> is in the translation table, \<open>mf_trans_del\<close> returns the
  number recorded for it, removes that entry and no other, takes one from
  \<open>mf_neg_count\<close>, and a second call returns \<open>old_nr\<close> and changes nothing. When
  \<open>old_nr\<close> is absent it returns \<open>old_nr\<close> and changes nothing.
\<close>

theorem mf_trans_del_once:
  "(\<forall>new_nr. pmap_get (mf_trans (mfp st)) old_nr = Some new_nr \<longrightarrow>
      (case mf_trans_del st old_nr of
         (r, st') \<Rightarrow>
           r = new_nr
           \<and> pmap_get (mf_trans (mfp st')) old_nr = None
           \<and> (\<forall>k. k \<noteq> old_nr \<longrightarrow> pmap_get (mf_trans (mfp st')) k = pmap_get (mf_trans (mfp st)) k)
           \<and> mf_neg_count (mfp st') = mf_neg_count (mfp st) - 1
           \<and> mf_trans_del st' old_nr = (old_nr, st')))
   \<and> (pmap_get (mf_trans (mfp st)) old_nr = None \<longrightarrow> mf_trans_del st old_nr = (old_nr, st))"
  by (simp add: mf_trans_del_def upd_defs pmap_get_del)

theorem mf_trans_del_once_witness:
  "fst (mf_trans_del (mf_put world_neg 0 False True) (- 1)) = 0
   \<and> mf_trans_del (snd (mf_trans_del (mf_put world_neg 0 False True) (- 1))) (- 1)
       = (- 1, snd (mf_trans_del (mf_put world_neg 0 False True) (- 1)))
   \<and> mf_trans_del world_neg (- 1) = (- 1, world_neg)"
  using mf_trans_del_once [where st = "mf_put world_neg 0 False True" and old_nr = "- 1"]
        mf_trans_del_once [where st = world_neg and old_nr = "- 1"]
  by (simp add: world_neg_eval pmap_get_def split_def)

subsection \<open>Syncing\<close>

lemma replicate_2: "replicate 2 x = [x, x]"
  by (simp add: numeral_2_eq_2)

lemmas eval_defs = mf_put_def mf_new_def new_header_def new_number_def
  mf_trans_add_def trans_new_bnum_def mf_alloc_bhdr_def xmalloc_def
  pmap_get_def pmap_put_def pmap_del_def upd_defs Let_def
  world_new_def env_ok_def mf_open_result_def BH_LOCKED_def BH_DIRTY_def memset_zero_def
  replicate_2

lemmas io_defs = mf_sync_def mf_sync_visit_def mf_write_def mf_write_round_def
  mf_write_pages_def
  vim_lseek_def write_eintr_def write_at_def os_breakcheck_def os_char_avail_def os_fsync_def
  MFS_ALL_def MFS_STOP_def MFS_FLUSH_def MFS_ZERO_def

lemma world_dirty_eval:
  "world_dirty =
     \<lparr>mfp = (mf_open_result (Some ''swp'') (Some ''/swp'') 3 2 0)
              \<lparr>mf_hash := [(0, 0)], mf_blocknr_max := 1, mf_dirty := MF_DIRTY_YES\<rparr>,
      heap = (junk_hdr env_ok)
               (0 := \<lparr>bh_bnum = 0, bh_data = [0, 0], bh_page_count = 1, bh_flags = 1\<rparr>),
      heap_top = 1, swap = [], fpos = 0, msgs = [],
      did_swapwrite_msg = False, got_int = False, clock = 0\<rparr>"
  by (simp add: world_dirty_def eval_defs)













text \<open>
  Claim C1, as the code has it. With an open swap file, when the walk of \<open>mf_sync\<close> over
  the block index ends with the status \<open>FAIL\<close> (a write failed), \<open>mf_sync\<close> returns
  \<open>FAIL\<close> and has set the memfile's dirty state to \<open>MF_DIRTY_NO\<close>.
\<close>

theorem mf_sync_failed_walk:
  assumes "0 \<le> mf_fd (mfp st)"
    and "mf_sync_walk e flags 0 hp0 OK (st\<lparr>got_int := False\<rparr>) = Some (hp, FAIL, st1)"
  shows "\<exists>st'. mf_sync e hp0 st flags = Some (FAIL, st') \<and> mf_dirty (mfp st') = MF_DIRTY_NO"
  using assms by (simp add: mf_sync_def os_fsync_def upd_defs Let_def split_def)

theorem mf_sync_failed_walk_witness:
  "\<exists>st'. mf_sync env_full None world_dirty 0 = Some (FAIL, st')
         \<and> mf_dirty (mfp st') = MF_DIRTY_NO"
proof -
  have fd: "0 \<le> mf_fd (mfp world_dirty)"
    by (simp add: world_dirty_eval mf_open_result_def)
  have "\<exists>hp st1. mf_sync_walk env_full 0 0 None OK (world_dirty\<lparr>got_int := False\<rparr>)
                    = Some (hp, FAIL, st1)"
    by (simp add: io_defs mf_sync_walk.simps mf_write_loop.simps env_full_def
          world_dirty_eval eval_defs)
  then obtain hp st1 where
    "mf_sync_walk env_full 0 0 None OK (world_dirty\<lparr>got_int := False\<rparr>) = Some (hp, FAIL, st1)"
    by blast
  with fd show ?thesis by (rule mf_sync_failed_walk)
qed

theorem mf_sync_failed_walk_counterexample:
  "0 \<le> mf_fd (mfp world_dirty) \<and> mf_dirty (mfp world_dirty) = MF_DIRTY_YES
   \<and> (case mf_sync_walk env_full 0 0 None OK (world_dirty\<lparr>got_int := False\<rparr>) of
         None \<Rightarrow> False | Some (hp, status, st1) \<Rightarrow> status = FAIL)
   \<and> (case mf_sync env_full None world_dirty 0 of
         None \<Rightarrow> False | Some (r, st') \<Rightarrow> mf_dirty (mfp st') \<noteq> MF_DIRTY_YES)"
  by (simp add: io_defs mf_sync_walk.simps mf_write_loop.simps env_full_def
        world_dirty_eval eval_defs)



subsection \<open>Writing without holes\<close>










































end
